theory Spec2Isabelle
  imports Main "HOL-Library.Product_Lexorder" "HOL-Library.List_Lexorder" "HOL-Library.Char_ord"
begin

section \<open>Calendar dates\<close>

text \<open>
  A \<^verbatim>\<open>datetime.date\<close> is held as its proleptic Gregorian ordinal (\<^verbatim>\<open>date.toordinal()\<close>,
  day 1 is 0001-01-01), so that \<^verbatim>\<open>d + timedelta(days=n)\<close> is \<open>d + n\<close>,
  \<^verbatim>\<open>(d1 - d2).days\<close> is \<open>d1 - d2\<close> and the comparison of dates is the comparison of
  integers. The conversions between ordinals and (year, month, day) follow the standard
  library's \<^verbatim>\<open>_ymd2ord\<close> and \<^verbatim>\<open>_ord2ymd\<close>. The library's range of years (1 to 9999) is not
  part of the model: ordinals are unbounded integers.
\<close>

type_synonym date = int

definition is_leap :: "int \<Rightarrow> bool" where
  "is_leap year = (year mod 4 = 0 \<and> (year mod 100 \<noteq> 0 \<or> year mod 400 = 0))"

definition days_before_year :: "int \<Rightarrow> int" where
  "days_before_year year = (let y = year - 1 in y * 365 + y div 4 - y div 100 + y div 400)"

definition DAYS_IN_MONTH :: "int list" where
  "DAYS_IN_MONTH = [-1, 31, 28, 31, 30, 31, 30, 31, 31, 30, 31, 30, 31]"

definition DAYS_BEFORE_MONTH :: "int list" where
  "DAYS_BEFORE_MONTH = [-1, 0, 31, 59, 90, 120, 151, 181, 212, 243, 273, 304, 334]"

definition days_before_month :: "int \<Rightarrow> int \<Rightarrow> int" where
  "days_before_month year month =
     DAYS_BEFORE_MONTH ! nat month + (if month > 2 \<and> is_leap year then 1 else 0)"

definition ymd2ord :: "int \<Rightarrow> int \<Rightarrow> int \<Rightarrow> date" where
  "ymd2ord year month day = days_before_year year + days_before_month year month + day"

definition ord2ymd :: "date \<Rightarrow> int \<times> int \<times> int" where
  "ord2ymd ordinal =
     (let n = ordinal - 1;
          n400 = n div 146097; n = n mod 146097;
          year = n400 * 400 + 1;
          n100 = n div 36524; n = n mod 36524;
          n4 = n div 1461; n = n mod 1461;
          n1 = n div 365; n = n mod 365;
          year = year + n100 * 100 + n4 * 4 + n1
      in if n1 = 4 \<or> n100 = 4 then (year - 1, 12, 31)
         else
           let leapyear = (n1 = 3 \<and> (n4 \<noteq> 24 \<or> n100 = 3));
               month = (n + 50) div 32;
               preceding = DAYS_BEFORE_MONTH ! nat month + (if month > 2 \<and> leapyear then 1 else 0)
           in if preceding > n
              then let month = month - 1;
                       preceding = preceding
                         - (DAYS_IN_MONTH ! nat month + (if month = 2 \<and> leapyear then 1 else 0))
                   in (year, month, n - preceding + 1)
              else (year, month, n - preceding + 1))"

text \<open>\<^verbatim>\<open>date.weekday()\<close>: Monday is 0, Tuesday is 1, ..., Sunday is 6.\<close>

definition weekday :: "date \<Rightarrow> int" where
  "weekday d = (d + 6) mod 7"

text \<open>Decimal rendering with leading zeros, as \<^verbatim>\<open>%Y\<close>, \<^verbatim>\<open>%m\<close> and \<^verbatim>\<open>%d\<close> give it.\<close>

fun zpad :: "nat \<Rightarrow> nat \<Rightarrow> string" where
  "zpad 0 n = []"
| "zpad (Suc w) n = zpad w (n div 10) @ [''0123456789'' ! (n mod 10)]"

text \<open>
  \<^verbatim>\<open>date_obj.strftime("%Y/%m/%d")\<close>. The year is written with four digits, as it is for the
  years from 1000 on; the dates the planner emits start at 1971-01-01.
\<close>

definition strftime :: "date \<Rightarrow> string" where
  "strftime d =
     (case ord2ymd d of (y, m, dd) \<Rightarrow>
        zpad 4 (nat y) @ ''/'' @ zpad 2 (nat m) @ ''/'' @ zpad 2 (nat dd))"

section \<open>Cutoff: the last Tuesday in Indian Standard Time\<close>

text \<open>
  An instant is a number of seconds since 1970-01-01T00:00:00 UTC (fractions of a second
  do not change the date). \<^verbatim>\<open>astimezone(ZoneInfo("Asia/Kolkata"))\<close> shifts the instant by the
  zone's offset, +05:30 (the offset of that zone since 1945), and \<^verbatim>\<open>.date()\<close> takes the day of
  the shifted instant; 1970-01-01 has ordinal 719163.
\<close>

type_synonym instant = int

definition astimezone_kolkata :: "instant \<Rightarrow> int" where
  "astimezone_kolkata t = t + 19800"

definition date_of_local :: "int \<Rightarrow> date" where
  "date_of_local s = 719163 + s div 86400"

text \<open>
  \<^verbatim>\<open>last_tuesday_ist(today_utc=None, strict=True)\<close>. The first argument of the model is the
  reading of the clock (\<^verbatim>\<open>datetime.utcnow()\<close>), used when \<open>today_utc\<close> is \<open>None\<close>.
\<close>

definition last_tuesday_ist :: "instant \<Rightarrow> instant option \<Rightarrow> bool \<Rightarrow> date" where
  "last_tuesday_ist utcnow today_utc strict =
     (let today_utc = (case today_utc of None \<Rightarrow> utcnow | Some t \<Rightarrow> t);
          now_ist = astimezone_kolkata today_utc;
          wd = weekday (date_of_local now_ist);
          delta = (wd - 1) mod 7;
          delta = (if strict \<and> wd = 1 then 7 else delta)
      in date_of_local now_ist - delta)"

section \<open>The master dataset\<close>

text \<open>
  A cell of the \<^verbatim>\<open>Rank\<close> or \<^verbatim>\<open>Rating\<close> column is a number (as the loader infers it from
  the persisted file) or a text (as the fetcher produces it). A \<^verbatim>\<open>Date\<close> is a day, or
  \<open>None\<close> for the missing marker \<^verbatim>\<open>NaT\<close> that \<^verbatim>\<open>pd.to_datetime(..., errors="coerce")\<close> gives
  to a text it cannot parse. Dates of the persisted file are written by the program as
  \<^verbatim>\<open>%Y/%m/%d\<close>, so they carry no time of day.
\<close>

datatype cell = Num int | Str string

record ranking_record =
  Date :: "date option"
  Format :: string
  Category :: string
  Rank :: cell
  Player :: string
  Rating :: cell

type_synonym dataframe = "ranking_record list"

datatype error = TypeError

definition FORMATS :: "string list" where
  "FORMATS = [''odi'', ''test'']"

definition CATEGORIES :: "string list" where
  "CATEGORIES = [''batting'', ''bowling'']"

definition MAX_RETRIES :: nat where
  "MAX_RETRIES = 3"

section \<open>Planning the jobs\<close>

type_synonym job = "date \<times> string \<times> string"

text \<open>
  \<^verbatim>\<open>df_sub["Date"].max()\<close>: the largest date of the column, missing values skipped;
  the result is missing when the column holds no date at all.
\<close>

fun column_max :: "date option list \<Rightarrow> date option" where
  "column_max [] = None"
| "column_max (None # xs) = column_max xs"
| "column_max (Some d # xs) =
     (case column_max xs of None \<Rightarrow> Some d | Some m \<Rightarrow> Some (max d m))"

text \<open>
  Lines 73 to 77: the last date known for a pair, \<open>None\<close> when \<^verbatim>\<open>max()\<close> is \<^verbatim>\<open>NaT\<close>
  (the pair has rows, none of them with a date).
\<close>

definition last_date_of :: "dataframe \<Rightarrow> string \<Rightarrow> string \<Rightarrow> date option" where
  "last_date_of df_master fmt cat =
     (let df_sub = filter (\<lambda>r. Format r = fmt \<and> Category r = cat) df_master
      in if df_sub \<noteq> [] then column_max (map Date df_sub)
         else Some (ymd2ord 1971 1 1 - 1))"

text \<open>Line 81: \<^verbatim>\<open>[start_date + timedelta(days=i) for i in range((end_date - start_date).days + 1)]\<close>\<close>

definition new_dates :: "date \<Rightarrow> date \<Rightarrow> date list" where
  "new_dates start_date end_date =
     map (\<lambda>i. start_date + int i) [0 ..< nat (end_date - start_date + 1)]"

text \<open>
  Lines 70 to 83: the two nested loops run over the pairs of \<open>List.product\<close> in this order,
  appending to \<open>jobs\<close>. Comparing \<^verbatim>\<open>NaT\<close> with a \<^verbatim>\<open>datetime.date\<close> at line 78 raises
  \<^verbatim>\<open>TypeError\<close>, which ends the run.
\<close>

fun plan_pairs :: "dataframe \<Rightarrow> date \<Rightarrow> (string \<times> string) list \<Rightarrow> job list \<Rightarrow> error + job list" where
  "plan_pairs df_master end_date [] jobs = Inr jobs"
| "plan_pairs df_master end_date ((fmt, cat) # rest) jobs =
     (case last_date_of df_master fmt cat of
        None \<Rightarrow> Inl TypeError
      | Some last_date \<Rightarrow>
          if last_date \<ge> end_date then plan_pairs df_master end_date rest jobs
          else let start_date = last_date + 1
               in plan_pairs df_master end_date rest
                    (jobs @ map (\<lambda>d. (d, fmt, cat)) (new_dates start_date end_date)))"

definition plan_jobs :: "string list \<Rightarrow> string list \<Rightarrow> dataframe \<Rightarrow> date \<Rightarrow> error + job list" where
  "plan_jobs formats categories df_master end_date =
     plan_pairs df_master end_date (List.product formats categories) []"

text \<open>The jobs one pair contributes, given its last date (used to state the results).\<close>

definition pair_jobs :: "date \<Rightarrow> date \<Rightarrow> string \<Rightarrow> string \<Rightarrow> job list" where
  "pair_jobs last_date end_date fmt cat =
     (if last_date \<ge> end_date then []
      else map (\<lambda>d. (d, fmt, cat)) (new_dates (last_date + 1) end_date))"

section \<open>Merging\<close>

text \<open>
  \<^verbatim>\<open>drop_duplicates\<close> over all six columns keeps the first row of every group of equal
  rows, in the order of the frame.
\<close>

fun drop_seen :: "'a list \<Rightarrow> 'a list \<Rightarrow> 'a list" where
  "drop_seen seen [] = []"
| "drop_seen seen (x # xs) =
     (if x \<in> set seen then drop_seen seen xs else x # drop_seen (x # seen) xs)"

definition drop_duplicates :: "'a list \<Rightarrow> 'a list" where
  "drop_duplicates xs = drop_seen [] xs"

text \<open>
  \<^verbatim>\<open>sort_values(["Format","Category","Date","Rank"])\<close> sorts by the four columns
  lexicographically, ascending, rows of equal keys staying in the order of the frame. Texts
  compare as Python strings do, character by character; a missing date comes after every
  date (\<^verbatim>\<open>na_position="last"\<close>); in a column that mixes numbers and texts, numbers come
  before texts.
\<close>

definition date_key :: "date option \<Rightarrow> bool \<times> int" where
  "date_key d = (case d of Some n \<Rightarrow> (False, n) | None \<Rightarrow> (True, 0))"

definition rank_key :: "cell \<Rightarrow> bool \<times> int \<times> string" where
  "rank_key r = (case r of Num n \<Rightarrow> (False, n, []) | Str s \<Rightarrow> (True, 0, s))"

definition canonical_key :: "ranking_record \<Rightarrow> string \<times> string \<times> (bool \<times> int) \<times> (bool \<times> int \<times> string)" where
  "canonical_key r = (Format r, Category r, date_key (Date r), rank_key (Rank r))"

definition sort_values :: "dataframe \<Rightarrow> dataframe" where
  "sort_values df = sort_key canonical_key df"

text \<open>Lines 112 to 115.\<close>

definition merge :: "dataframe \<Rightarrow> dataframe \<Rightarrow> dataframe" where
  "merge df_master new_df = sort_values (drop_duplicates (df_master @ new_df))"

section \<open>Fetching one unit\<close>

text \<open>
  The parsed page, as far as \<^verbatim>\<open>scrape_date\<close> looks at it: the \<^verbatim>\<open>table\<close> elements of the
  document in document order, each with its \<^verbatim>\<open>tr\<close> rows, each row with its \<^verbatim>\<open>td\<close> cells
  (what \<^verbatim>\<open>row.find_all("td")\<close> returns; a \<^verbatim>\<open>th\<close> cell is not one of them), each cell with
  its text fragments in document order.
\<close>

type_synonym td = "string list"
type_synonym tr = "td list"
type_synonym table = "tr list"
type_synonym document = "table list"

text \<open>
  What one pass through the body of the \<^verbatim>\<open>try\<close> meets: an exception somewhere in it (a
  timeout, a transport error, a parse error), or a response with its status code and its
  parsed body.
\<close>

datatype attempt = Raises | Response int document

text \<open>What the function does to the outside world, in order.\<close>

datatype event = Get string | Sleep nat

text \<open>A scraped row: date text, format, category, rank, player, rating (lines 45 to 48).\<close>

type_synonym row = "string \<times> string \<times> string \<times> string \<times> string \<times> string"

text \<open>
  The whitespace of Python's \<^verbatim>\<open>str.strip()\<close> among the characters of \<^typ>\<open>char\<close>:
  codes 9 to 13, 28 to 32, 133 and 160.
\<close>

definition isspace :: "char \<Rightarrow> bool" where
  "isspace ch = (let n = (of_char ch :: nat)
                 in (9 \<le> n \<and> n \<le> 13) \<or> (28 \<le> n \<and> n \<le> 32) \<or> n = 133 \<or> n = 160)"

definition strip :: "string \<Rightarrow> string" where
  "strip s = rev (dropWhile isspace (rev (dropWhile isspace s)))"

text \<open>
  \<^verbatim>\<open>get_text(strip=True)\<close>: every text fragment of the element stripped, the empty ones
  left out, the rest joined with nothing in between.
\<close>

definition get_text_strip :: "td \<Rightarrow> string" where
  "get_text_strip cell = concat (filter (\<lambda>s. s \<noteq> []) (map strip cell))"

text \<open>\<^verbatim>\<open>soup.select("table tr")\<close>: the rows of every table of the document, in document order.\<close>

definition select_table_tr :: "document \<Rightarrow> tr list" where
  "select_table_tr soup = concat soup"

definition BASE_URL :: "string \<Rightarrow> string \<Rightarrow> string \<Rightarrow> string" where
  "BASE_URL fmt category date_str =
     ''https://www.relianceiccrankings.com/datespecific/'' @ fmt @ ''/'' @ category @ ''/''
       @ date_str @ ''/''"

text \<open>Lines 44 to 51, the list comprehension.\<close>

definition extract_rows :: "string \<Rightarrow> string \<Rightarrow> string \<Rightarrow> tr list \<Rightarrow> row list" where
  "extract_rows date_str fmt category rows =
     map (\<lambda>cols. (date_str, fmt, category,
                   get_text_strip (cols ! 0), get_text_strip (cols ! 1), get_text_strip (cols ! 2)))
         (filter (\<lambda>cols. length cols \<ge> 3) rows)"

text \<open>
  Lines 35 to 54: the loop, with the number of passes left and the index of the present
  pass; \<open>net i\<close> is what pass \<open>i\<close> meets. The slice \<^verbatim>\<open>[1:101]\<close> is \<open>take 100 (drop 1 _)\<close>.
\<close>

fun retry_loop :: "nat \<Rightarrow> (nat \<Rightarrow> attempt) \<Rightarrow> nat \<Rightarrow> string \<Rightarrow> string \<Rightarrow> string \<Rightarrow> row list \<times> event list" where
  "retry_loop 0 net i date_str fmt category = ([], [])"
| "retry_loop (Suc n) net i date_str fmt category =
     (case net i of
        Raises \<Rightarrow>
          (case retry_loop n net (Suc i) date_str fmt category of
             (res, evs) \<Rightarrow> (res, Get (BASE_URL fmt category date_str) # Sleep 1 # evs))
      | Response status_code soup \<Rightarrow>
          if status_code \<noteq> 200 then
            (case retry_loop n net (Suc i) date_str fmt category of
               (res, evs) \<Rightarrow> (res, Get (BASE_URL fmt category date_str) # evs))
          else
            let rows = take 100 (drop 1 (select_table_tr soup))
            in if rows = [] then ([], [Get (BASE_URL fmt category date_str)])
               else (extract_rows date_str fmt category rows,
                     [Get (BASE_URL fmt category date_str)]))"

definition scrape_date :: "(nat \<Rightarrow> attempt) \<Rightarrow> date \<Rightarrow> string \<Rightarrow> string \<Rightarrow> row list \<times> event list" where
  "scrape_date net date_obj fmt category =
     (let date_str = strftime date_obj
      in retry_loop MAX_RETRIES net 0 date_str fmt category)"

text \<open>A pass fails when it raises or when the status is not 200.\<close>

definition failed :: "attempt \<Rightarrow> bool" where
  "failed a = (case a of Raises \<Rightarrow> True | Response status_code soup \<Rightarrow> status_code \<noteq> 200)"

definition gets :: "event list \<Rightarrow> nat" where
  "gets evs = length (filter (\<lambda>e. case e of Get url \<Rightarrow> True | Sleep n \<Rightarrow> False) evs)"

text \<open>
  The extraction in the words of the specification, to compare with the code: the rows of
  the first table only, the header row skipped, at most 100 of them, those with at least
  three cells, each of the three texts trimmed.
\<close>

definition spec_first_table_rows :: "string \<Rightarrow> string \<Rightarrow> string \<Rightarrow> document \<Rightarrow> row list" where
  "spec_first_table_rows date_str fmt category soup =
     (case soup of
        [] \<Rightarrow> []
      | first_table # others \<Rightarrow> extract_rows date_str fmt category (take 100 (drop 1 first_table)))"

section \<open>The run\<close>

text \<open>
  \<^verbatim>\<open>pd.to_datetime(new_df["Date"], errors="coerce")\<close> at line 108 reads the texts that
  \<^verbatim>\<open>strftime("%Y/%m/%d")\<close> wrote at line 34; the model parses that form and gives the
  missing marker to anything else.
\<close>

definition digit_of :: "char \<Rightarrow> nat option" where
  "digit_of ch = (let n = (of_char ch :: nat) in if 48 \<le> n \<and> n \<le> 57 then Some (n - 48) else None)"

fun number_of :: "nat \<Rightarrow> string \<Rightarrow> nat option" where
  "number_of acc [] = Some acc"
| "number_of acc (ch # s) =
     (case digit_of ch of None \<Rightarrow> None | Some v \<Rightarrow> number_of (10 * acc + v) s)"

definition days_in_month :: "int \<Rightarrow> int \<Rightarrow> int" where
  "days_in_month year month =
     (if month = 2 \<and> is_leap year then 29 else DAYS_IN_MONTH ! nat month)"

definition to_datetime :: "string \<Rightarrow> date option" where
  "to_datetime s =
     (if length s = 10 \<and> s ! 4 = CHR ''/'' \<and> s ! 7 = CHR ''/'' then
        (case (number_of 0 (take 4 s), number_of 0 (take 2 (drop 5 s)), number_of 0 (drop 8 s)) of
           (Some y, Some m, Some d) \<Rightarrow>
             if 1 \<le> y \<and> 1 \<le> m \<and> m \<le> 12 \<and> 1 \<le> d \<and> int d \<le> days_in_month (int y) (int m)
             then Some (ymd2ord (int y) (int m) (int d)) else None
         | _ \<Rightarrow> None)
      else None)"

text \<open>Lines 107 and 108: the scraped rows as a frame.\<close>

definition DataFrame :: "row list \<Rightarrow> dataframe" where
  "DataFrame results =
     map (\<lambda>(date_str, fmt, category, rank, player, rating).
            \<lparr>Date = to_datetime date_str, Format = fmt, Category = category,
             Rank = Str rank, Player = player, Rating = Str rating\<rparr>) results"

text \<open>
  Lines 92 to 100. The pool runs \<^verbatim>\<open>scrape_date\<close> on every job; the callback extends
  \<open>results\<close> with each non-empty result, in the order in which the jobs complete. That
  order is the list \<open>completed\<close>; \<open>net job\<close> is what the passes of that job meet.
\<close>

definition pool :: "(job \<Rightarrow> nat \<Rightarrow> attempt) \<Rightarrow> job list \<Rightarrow> row list \<times> event list" where
  "pool net completed =
     (concat (map (\<lambda>(d, fmt, cat). fst (scrape_date (net (d, fmt, cat)) d fmt cat)) completed),
      concat (map (\<lambda>(d, fmt, cat). snd (scrape_date (net (d, fmt, cat)) d fmt cat)) completed))"

datatype message =
    Loaded | Fresh | NothingNew | Scraping nat | NoNewData | NewRows nat | Updated nat

text \<open>
  What a run leaves behind: the persisted file (\<open>None\<close> when there is none; the file is
  held as the frame it stores), the lines printed, the requests and pauses of the fetches,
  and the exception the run ended with, if any.
\<close>

record run =
  file_after :: "dataframe option"
  printed :: "message list"
  fetched :: "event list"
  raised :: "error option"

text \<open>
  \<^verbatim>\<open>main()\<close>. Its arguments are the world it runs in: the clock, the network, the order
  in which the pool completes the jobs it is given, and the persisted file.
  The write of lines 118 and 119 is taken to succeed.
\<close>

definition main :: "instant \<Rightarrow> (job \<Rightarrow> nat \<Rightarrow> attempt) \<Rightarrow> (job list \<Rightarrow> job list) \<Rightarrow> dataframe option \<Rightarrow> run" where
  "main utcnow net completion file =
     (let df_master = (case file of Some df \<Rightarrow> df | None \<Rightarrow> []);
          greeting = (case file of Some df \<Rightarrow> Loaded | None \<Rightarrow> Fresh);
          end_date = last_tuesday_ist utcnow None True
      in case plan_jobs FORMATS CATEGORIES df_master end_date of
           Inl e \<Rightarrow> \<lparr>file_after = file, printed = [greeting], fetched = [], raised = Some e\<rparr>
         | Inr jobs \<Rightarrow>
             if jobs = [] then
               \<lparr>file_after = file, printed = [greeting, NothingNew], fetched = [], raised = None\<rparr>
             else
               case pool net (completion jobs) of (results, evs) \<Rightarrow>
                 if results = [] then
                   \<lparr>file_after = file, printed = [greeting, Scraping (length jobs), NoNewData],
                    fetched = evs, raised = None\<rparr>
                 else
                   let new_df = DataFrame results;
                       combined = merge df_master new_df
                   in \<lparr>file_after = Some combined,
                       printed = [greeting, Scraping (length jobs), NewRows (length new_df),
                                  Updated (length combined)],
                       fetched = evs, raised = None\<rparr>)"

section \<open>The canonical ordering as the specification words it\<close>

text \<open>
  In the words of the specification the rank is an ordinal position, and the master is
  sorted by (format, category, date, rank) ascending. For the comparison with the code,
  a rank held as text counts as the number it spells; a text that spells no number comes
  after every number.
\<close>

definition spec_rank_position :: "cell \<Rightarrow> bool \<times> int" where
  "spec_rank_position r =
     (case r of
        Num n \<Rightarrow> (False, n)
      | Str s \<Rightarrow>
          (case (if s = [] then None else number_of 0 s) of
             Some n \<Rightarrow> (False, int n)
           | None \<Rightarrow> (True, 0)))"

definition spec_canonical_key :: "ranking_record \<Rightarrow> string \<times> string \<times> (bool \<times> int) \<times> (bool \<times> int)" where
  "spec_canonical_key r =
     (Format r, Category r, date_key (Date r), spec_rank_position (Rank r))"

section \<open>Properties of the cutoff\<close>

lemma last_tuesday_is_tuesday: "weekday (last_tuesday_ist utcnow today_utc strict) = 1"
  by (auto simp: last_tuesday_ist_def Let_def weekday_def) presburger+

section \<open>Properties of the planner\<close>

lemma count_list_distinct: "distinct xs \<Longrightarrow> count_list xs x = (if x \<in> set xs then 1 else 0)"
  by (induction xs) auto

lemma set_new_dates: "set (new_dates s e) = {s..e}"
proof -
  have "(\<lambda>i. s + int i) ` {0..<nat (e - s + 1)} = {s..e}"
  proof (rule set_eqI)
    fix d
    show "d \<in> (\<lambda>i. s + int i) ` {0..<nat (e - s + 1)} \<longleftrightarrow> d \<in> {s..e}"
    proof
      assume "d \<in> (\<lambda>i. s + int i) ` {0..<nat (e - s + 1)}"
      then show "d \<in> {s..e}" by auto
    next
      assume d: "d \<in> {s..e}"
      then have "d = s + int (nat (d - s))" "nat (d - s) \<in> {0..<nat (e - s + 1)}" by auto
      then show "d \<in> (\<lambda>i. s + int i) ` {0..<nat (e - s + 1)}" by (rule image_eqI)
    qed
  qed
  then show ?thesis by (simp add: new_dates_def)
qed

lemma distinct_new_dates: "distinct (new_dates s e)"
  by (simp add: new_dates_def distinct_map inj_on_def)

lemma count_list_new_dates: "count_list (new_dates s e) d = (if s \<le> d \<and> d \<le> e then 1 else 0)"
  by (simp add: count_list_distinct distinct_new_dates set_new_dates)

lemma count_list_map_job:
  "count_list (map (\<lambda>d. (d, f, c)) ds) (d', f', c') = (if f = f' \<and> c = c' then count_list ds d' else 0)"
  by (induction ds) auto

lemma count_list_pair_jobs:
  "count_list (pair_jobs w e f c) (d, f', c') = (if f = f' \<and> c = c' \<and> w < d \<and> d \<le> e then 1 else 0)"
  by (auto simp: pair_jobs_def count_list_map_job count_list_new_dates)

text \<open>When every pair has a last date, the planner returns the jobs of the pairs, in order.\<close>

lemma plan_pairs_Inr:
  "\<forall>(f, c) \<in> set ps. last_date_of df f c = Some (W f c) \<Longrightarrow>
   plan_pairs df e ps jobs = Inr (jobs @ concat (map (\<lambda>(f, c). pair_jobs (W f c) e f c) ps))"
proof (induction ps arbitrary: jobs)
  case Nil
  then show ?case by simp
next
  case (Cons p ps)
  obtain f c where p: "p = (f, c)" by (cases p)
  from Cons.prems p have w: "last_date_of df f c = Some (W f c)" by simp
  from Cons.prems have rest: "\<forall>(f, c) \<in> set ps. last_date_of df f c = Some (W f c)" by simp
  show ?case
    using w Cons.IH [OF rest] by (simp add: p pair_jobs_def)
qed

text \<open>When some pair has rows and no date among them, the planner raises.\<close>

lemma plan_pairs_Inl:
  "(f, c) \<in> set ps \<Longrightarrow> last_date_of df f c = None \<Longrightarrow> plan_pairs df e ps jobs = Inl TypeError"
proof (induction ps arbitrary: jobs)
  case Nil
  then show ?case by simp
next
  case (Cons p ps)
  obtain f' c' where p: "p = (f', c')" by (cases p)
  show ?case
  proof (cases "last_date_of df f' c'")
    case None
    then show ?thesis by (simp add: p)
  next
    case (Some w)
    with Cons.prems p have "(f, c) \<in> set ps" by auto
    from Cons.IH [OF this Cons.prems(2)] Some show ?thesis by (simp add: p)
  qed
qed

lemma count_list_concat_pair_jobs:
  "distinct ps \<Longrightarrow>
   count_list (concat (map (\<lambda>(f, c). pair_jobs (W f c) e f c) ps)) (d, f, c)
     = (if (f, c) \<in> set ps \<and> W f c < d \<and> d \<le> e then 1 else 0)"
proof (induction ps)
  case Nil
  then show ?case by simp
next
  case (Cons p ps)
  obtain f' c' where p: "p = (f', c')" by (cases p)
  from Cons show ?case
    by (auto simp: p count_list_pair_jobs)
qed

lemma set_concat_pair_jobs:
  "(d, f, c) \<in> set (concat (map (\<lambda>(f, c). pair_jobs (W f c) e f c) ps)) \<Longrightarrow> (f, c) \<in> set ps"
  by (auto simp: pair_jobs_def split: if_splits)

lemma plan_jobs_count:
  assumes "distinct formats" "distinct categories"
    and "\<forall>f \<in> set formats. \<forall>c \<in> set categories. last_date_of df f c = Some (W f c)"
  shows "\<exists>jobs. plan_jobs formats categories df e = Inr jobs
           \<and> (\<forall>f \<in> set formats. \<forall>c \<in> set categories. \<forall>d.
                 count_list jobs (d, f, c) = (if W f c < d \<and> d \<le> e then 1 else 0))
           \<and> (\<forall>(d, f, c) \<in> set jobs. f \<in> set formats \<and> c \<in> set categories)"
proof -
  let ?ps = "List.product formats categories"
  let ?jobs = "concat (map (\<lambda>(f, c). pair_jobs (W f c) e f c) ?ps)"
  from assms(3) have "\<forall>(f, c) \<in> set ?ps. last_date_of df f c = Some (W f c)" by auto
  then have "plan_pairs df e ?ps [] = Inr ([] @ ?jobs)"
    by (rule plan_pairs_Inr)
  then have run: "plan_jobs formats categories df e = Inr ?jobs"
    by (simp add: plan_jobs_def)
  have d: "distinct ?ps" using assms(1,2) by (rule distinct_product)
  have cnt: "\<forall>f \<in> set formats. \<forall>c \<in> set categories. \<forall>d.
                 count_list ?jobs (d, f, c) = (if W f c < d \<and> d \<le> e then 1 else 0)"
    by (simp add: count_list_concat_pair_jobs [OF d])
  have mem: "\<forall>(d, f, c) \<in> set ?jobs. f \<in> set formats \<and> c \<in> set categories"
  proof (clarify)
    fix d f c
    assume "(d, f, c) \<in> set ?jobs"
    then have "(f, c) \<in> set ?ps" by (rule set_concat_pair_jobs)
    then show "f \<in> set formats \<and> c \<in> set categories" by simp
  qed
  from run cnt mem show ?thesis by blast
qed

lemma plan_jobs_raises:
  "f \<in> set formats \<Longrightarrow> c \<in> set categories \<Longrightarrow> last_date_of df f c = None \<Longrightarrow>
   plan_jobs formats categories df e = Inl TypeError"
  unfolding plan_jobs_def by (rule plan_pairs_Inl) simp_all

lemma distinct_FORMATS: "distinct FORMATS"
  by (simp add: FORMATS_def)

lemma distinct_CATEGORIES: "distinct CATEGORIES"
  by (simp add: CATEGORIES_def)

text \<open>The last date of a pair is the largest date among the rows of the pair.\<close>

lemma column_max_None: "column_max xs = None \<longleftrightarrow> (\<forall>x \<in> set xs. x = None)"
  by (induction xs rule: column_max.induct) (auto split: option.splits)

lemma column_max_Some:
  "column_max xs = Some m \<Longrightarrow> Some m \<in> set xs \<and> (\<forall>d. Some d \<in> set xs \<longrightarrow> d \<le> m)"
proof (induction xs arbitrary: m rule: column_max.induct)
  case 1
  then show ?case by simp
next
  case (2 xs)
  then show ?case by simp
next
  case (3 d xs)
  show ?case
  proof (cases "column_max xs")
    case None
    with "3.prems" have "m = d" by simp
    moreover from None have "\<forall>x \<in> set xs. x = None" by (simp add: column_max_None)
    ultimately show ?thesis by auto
  next
    case (Some k)
    from "3.IH" [OF Some] have k: "Some k \<in> set xs" "\<forall>d. Some d \<in> set xs \<longrightarrow> d \<le> k" by auto
    from "3.prems" Some have "m = max d k" by simp
    with k show ?thesis by (auto simp: max_def)
  qed
qed

lemma last_date_of_max:
  assumes "\<exists>r \<in> set df. Format r = f \<and> Category r = c" and "last_date_of df f c = Some w"
  shows "(\<exists>r \<in> set df. Format r = f \<and> Category r = c \<and> Date r = Some w)
       \<and> (\<forall>r \<in> set df. Format r = f \<and> Category r = c \<longrightarrow> (\<forall>d. Date r = Some d \<longrightarrow> d \<le> w))"
proof -
  let ?sub = "filter (\<lambda>r. Format r = f \<and> Category r = c) df"
  from assms(1) have "?sub \<noteq> []" by (simp add: filter_empty_conv)
  with assms(2) have "column_max (map Date ?sub) = Some w" by (simp add: last_date_of_def)
  from column_max_Some [OF this] show ?thesis by (auto simp: image_iff) metis+
qed

lemma ymd2ord_1970_12_31: "ymd2ord 1970 12 31 = 719527"
  by (simp add: ymd2ord_def days_before_year_def days_before_month_def DAYS_BEFORE_MONTH_def
        is_leap_def)

lemma ymd2ord_1971_1: "ymd2ord 1971 1 d = 719527 + d"
  by (simp add: ymd2ord_def days_before_year_def days_before_month_def DAYS_BEFORE_MONTH_def
        is_leap_def)

lemma last_date_of_no_rows:
  assumes "\<forall>r \<in> set df. \<not> (Format r = f \<and> Category r = c)"
  shows "last_date_of df f c = Some (ymd2ord 1970 12 31)"
proof -
  from assms have "filter (\<lambda>r. Format r = f \<and> Category r = c) df = []"
    by (simp add: filter_empty_conv)
  then show ?thesis
    by (simp add: last_date_of_def ymd2ord_1970_12_31 ymd2ord_1971_1)
qed

section \<open>Properties of the merge\<close>

lemma set_drop_seen: "set (drop_seen seen xs) = set xs - set seen"
  by (induction xs arbitrary: seen) auto

lemma distinct_drop_seen: "distinct (drop_seen seen xs)"
  by (induction xs arbitrary: seen) (auto simp: set_drop_seen)

lemma drop_seen_all_seen: "set ys \<subseteq> set seen \<Longrightarrow> drop_seen seen ys = []"
  by (induction ys arbitrary: seen) auto

lemma drop_seen_append_distinct:
  "distinct xs \<Longrightarrow> set xs \<inter> set seen = {} \<Longrightarrow> set ys \<subseteq> set xs \<union> set seen \<Longrightarrow>
   drop_seen seen (xs @ ys) = xs"
proof (induction xs arbitrary: seen)
  case Nil
  then show ?case by (simp add: drop_seen_all_seen)
next
  case (Cons x xs)
  have "drop_seen (x # seen) (xs @ ys) = xs"
    using Cons.prems by (intro Cons.IH) auto
  with Cons.prems show ?case by simp
qed

lemma set_drop_duplicates: "set (drop_duplicates xs) = set xs"
  by (simp add: drop_duplicates_def set_drop_seen)

lemma distinct_drop_duplicates: "distinct (drop_duplicates xs)"
  by (simp add: drop_duplicates_def distinct_drop_seen)

lemma drop_duplicates_absorb:
  "distinct xs \<Longrightarrow> set ys \<subseteq> set xs \<Longrightarrow> drop_duplicates (xs @ ys) = xs"
  unfolding drop_duplicates_def by (rule drop_seen_append_distinct) auto

text \<open>The merge loses no row and invents none.\<close>

lemma set_merge: "set (merge df_master new_df) = set df_master \<union> set new_df"
  by (simp add: merge_def sort_values_def set_drop_duplicates)

lemma distinct_merge: "distinct (merge df_master new_df)"
  by (simp add: merge_def sort_values_def distinct_drop_duplicates)

lemma sorted_merge: "sorted (map canonical_key (merge df_master new_df))"
  by (simp add: merge_def sort_values_def)

text \<open>What the order of the keys means, column by column.\<close>

lemma canonical_key_le:
  "canonical_key a \<le> canonical_key b \<longleftrightarrow>
     Format a < Format b \<or> (Format a = Format b \<and>
       (Category a < Category b \<or> (Category a = Category b \<and>
          (date_key (Date a) < date_key (Date b) \<or> (date_key (Date a) = date_key (Date b) \<and>
             rank_key (Rank a) \<le> rank_key (Rank b))))))"
  by (auto simp: canonical_key_def)

lemma date_key_less:
  "date_key x < date_key y \<longleftrightarrow>
     (case (x, y) of (Some d, Some e) \<Rightarrow> d < e | (Some d, None) \<Rightarrow> True | (None, _) \<Rightarrow> False)"
  by (auto simp: date_key_def split: option.splits)

lemma date_key_inj: "date_key x = date_key y \<longleftrightarrow> x = y"
  by (auto simp: date_key_def split: option.splits)

lemma rank_key_inj: "rank_key x = rank_key y \<longleftrightarrow> x = y"
  by (auto simp: rank_key_def split: cell.splits)

text \<open>
  The order of the code and the order of the specification agree on ranks held as
  numbers, so a merge of such rows is in the order the specification means.
\<close>

lemma canonical_key_le_numeric:
  "Rank a = Num m \<Longrightarrow> Rank b = Num n \<Longrightarrow>
   canonical_key a \<le> canonical_key b \<longleftrightarrow> spec_canonical_key a \<le> spec_canonical_key b"
  by (auto simp: canonical_key_def spec_canonical_key_def rank_key_def spec_rank_position_def)

lemma merge_sorted_numeric_ranks:
  assumes "\<forall>r \<in> set df_master \<union> set new_df. \<exists>n. Rank r = Num n"
  shows "sorted (map spec_canonical_key (merge df_master new_df))"
proof -
  have "sorted_wrt (\<lambda>a b. canonical_key a \<le> canonical_key b) (merge df_master new_df)"
    using sorted_merge [of df_master new_df] by (simp add: sorted_map)
  then have "sorted_wrt (\<lambda>a b. spec_canonical_key a \<le> spec_canonical_key b)
               (merge df_master new_df)"
  proof (rule sorted_wrt_mono_rel [rotated])
    fix a b
    assume le: "canonical_key a \<le> canonical_key b"
    assume "a \<in> set (merge df_master new_df)" "b \<in> set (merge df_master new_df)"
    then have "a \<in> set df_master \<union> set new_df" "b \<in> set df_master \<union> set new_df"
      by (simp_all add: set_merge)
    with assms have "\<exists>m. Rank a = Num m" "\<exists>n. Rank b = Num n" by blast+
    then obtain m n where "Rank a = Num m" "Rank b = Num n" by blast
    with le show "spec_canonical_key a \<le> spec_canonical_key b"
      by (simp add: canonical_key_le_numeric)
  qed
  then show ?thesis by (simp add: sorted_map)
qed

section \<open>Properties of the fetch\<close>

lemma failed_cases:
  "failed a \<longleftrightarrow> a = Raises \<or> (\<exists>status_code soup. a = Response status_code soup \<and> status_code \<noteq> 200)"
  by (cases a) (simp_all add: failed_def)

text \<open>When every pass fails, the loop runs to its end and returns no row.\<close>

lemma retry_loop_all_failed:
  "\<forall>j<n. failed (net (i + j)) \<Longrightarrow>
   fst (retry_loop n net i date_str fmt category) = []
   \<and> snd (retry_loop n net i date_str fmt category)
       = concat (map (\<lambda>j. if net j = Raises
                            then [Get (BASE_URL fmt category date_str), Sleep 1]
                            else [Get (BASE_URL fmt category date_str)]) [i ..< i + n])"
proof (induction n arbitrary: i)
  case 0
  then show ?case by simp
next
  case (Suc n)
  from Suc.prems have here: "failed (net i)" by (metis add.right_neutral zero_less_Suc)
  have "\<forall>j<n. failed (net (Suc i + j))"
  proof (intro allI impI)
    fix j assume "j < n"
    then have "Suc j < Suc n" by simp
    with Suc.prems have "failed (net (i + Suc j))" by blast
    then show "failed (net (Suc i + j))" by simp
  qed
  from Suc.IH [OF this] have
    ih1: "fst (retry_loop n net (Suc i) date_str fmt category) = []" and
    ih2: "snd (retry_loop n net (Suc i) date_str fmt category)
            = concat (map (\<lambda>j. if net j = Raises
                            then [Get (BASE_URL fmt category date_str), Sleep 1]
                            else [Get (BASE_URL fmt category date_str)]) [Suc i ..< Suc i + n])"
    by simp_all
  have up: "[i ..< i + Suc n] = i # [Suc i ..< Suc i + n]"
    by (simp add: upt_rec)
  from here show ?case
    unfolding up using ih1 ih2
    by (auto simp: failed_cases split: prod.splits)
qed

text \<open>
  When pass \<open>k\<close> is the first that does not fail, the loop returns what the comprehension
  makes of its page, and pass \<open>k\<close> is the last request.
\<close>

lemma retry_loop_success:
  "k < n \<Longrightarrow> \<forall>j<k. failed (net (i + j)) \<Longrightarrow> net (i + k) = Response 200 soup \<Longrightarrow>
   fst (retry_loop n net i date_str fmt category)
     = extract_rows date_str fmt category (take 100 (drop 1 (select_table_tr soup)))
   \<and> gets (snd (retry_loop n net i date_str fmt category)) = Suc k"
proof (induction k arbitrary: n i)
  case 0
  then obtain m where n: "n = Suc m" by (cases n) auto
  from 0 show ?case by (simp add: n Let_def extract_rows_def gets_def)
next
  case (Suc k)
  then obtain m where n: "n = Suc m" by (cases n) auto
  from Suc.prems have here: "failed (net i)" by (metis add.right_neutral zero_less_Suc)
  have rest: "\<forall>j<k. failed (net (Suc i + j))"
  proof (intro allI impI)
    fix j assume "j < k"
    then have "Suc j < Suc k" by simp
    with Suc.prems have "failed (net (i + Suc j))" by blast
    then show "failed (net (Suc i + j))" by simp
  qed
  from Suc.prems have "k < m" "net (Suc i + k) = Response 200 soup" by (simp_all add: n)
  from Suc.IH [OF this(1) rest this(2)] here show ?case
    by (auto simp: n failed_cases gets_def split: prod.splits)
qed

lemma length_extract_rows: "length (extract_rows date_str fmt category rows) \<le> length rows"
  by (simp add: extract_rows_def)

lemma extract_rows_empty:
  "extract_rows date_str fmt category rows = [] \<longleftrightarrow> filter (\<lambda>cols. length cols \<ge> 3) rows = []"
  by (simp add: extract_rows_def)

text \<open>On a page with one table, the code and the words of the specification agree.\<close>

lemma single_table_rows:
  "extract_rows date_str fmt category (take 100 (drop 1 (select_table_tr [t])))
     = spec_first_table_rows date_str fmt category [t]"
  by (simp add: select_table_tr_def spec_first_table_rows_def)

text \<open>A cell with one text fragment gives that text, trimmed at both ends.\<close>

lemma get_text_strip_single: "get_text_strip [s] = strip s"
  by (simp add: get_text_strip_def)

lemma strip_trimmed:
  "strip s \<noteq> [] \<Longrightarrow> \<not> isspace (hd (strip s)) \<and> \<not> isspace (last (strip s))"
proof -
  assume ne: "strip s \<noteq> []"
  let ?t = "dropWhile isspace (rev (dropWhile isspace s))"
  from ne have t: "?t \<noteq> []" by (simp add: strip_def)
  then have a: "\<not> isspace (hd ?t)" by (rule hd_dropWhile)
  from t have "last ?t = last (rev (dropWhile isspace s))"
    by (metis append.right_neutral last_appendR takeWhile_dropWhile_id)
  moreover have d: "dropWhile isspace s \<noteq> []"
  proof
    assume e: "dropWhile isspace s = []"
    have "?t = dropWhile isspace (rev [])" by (simp only: e)
    with t show False by simp
  qed
  ultimately have "last ?t = hd (dropWhile isspace s)" by (simp add: last_rev)
  moreover from d have "\<not> isspace (hd (dropWhile isspace s))" by (rule hd_dropWhile)
  ultimately have b: "\<not> isspace (last ?t)" by simp
  from t a b show ?thesis by (simp add: strip_def hd_rev last_rev)
qed

section \<open>Properties of the run\<close>

lemma pool_Nil: "pool net [] = ([], [])"
  by (simp add: pool_def)

lemma main_writes:
  assumes "plan_jobs FORMATS CATEGORIES (case file of Some df \<Rightarrow> df | None \<Rightarrow> [])
             (last_tuesday_ist utcnow None True) = Inr jobs"
    and "jobs \<noteq> []" and "fst (pool net (completion jobs)) \<noteq> []"
  shows "file_after (main utcnow net completion file)
           = Some (merge (case file of Some df \<Rightarrow> df | None \<Rightarrow> [])
                         (DataFrame (fst (pool net (completion jobs)))))"
  using assms by (auto simp: main_def Let_def split: prod.splits)

lemma main_raises:
  assumes "plan_jobs FORMATS CATEGORIES (case file of Some df \<Rightarrow> df | None \<Rightarrow> [])
             (last_tuesday_ist utcnow None True) = Inl e"
  shows "main utcnow net completion file
           = \<lparr>file_after = file,
              printed = [case file of Some df \<Rightarrow> Loaded | None \<Rightarrow> Fresh],
              fetched = [], raised = Some e\<rparr>"
  using assms by (simp add: main_def Let_def)

lemma to_datetime_strftime_example:
  "to_datetime (strftime (ymd2ord 1971 1 5)) = Some (ymd2ord 1971 1 5)"
  by code_simp

section \<open>The claims\<close>



text \<open>
  Claim C2 (the merge is idempotent). Merging a batch into a master and then merging the same
  batch into the result gives the result of merging it once.
\<close>

theorem merge_idempotent:
  "merge (merge df_master new_df) new_df = merge df_master new_df"
proof -
  let ?R = "merge df_master new_df"
  have "drop_duplicates (?R @ new_df) = ?R"
    by (rule drop_duplicates_absorb) (simp_all add: distinct_merge set_merge)
  then have "merge ?R new_df = sort_key canonical_key ?R"
    by (simp add: merge_def[of ?R] sort_values_def)
  also have "\<dots> = ?R"
    by (rule sort_key_id_if_sorted) (rule sorted_merge)
  finally show ?thesis .
qed

text \<open>
  Claim C3 (the invariant of the master after a merge) does not hold of the code in its
  part on the order. The merged frame has no two equal rows, and it is sorted by format,
  category and date; but the ranks the fetcher produces are texts (line 46), and line 115
  sorts them as texts, character by character, so rank 10 comes before rank 2. Merging
  the ten rows of a page, ranks 1 to 10, into an empty master gives the ranks in the
  order 1, 10, 2, 3, ..., 9: a frame without equal rows that is not in ascending order of
  rank.
\<close>

theorem merge_text_ranks_out_of_order:
  "map Rank (merge [] (DataFrame
      [(''1971/01/05'', ''odi'', ''batting'', ''1'', ''A'', ''900''),
       (''1971/01/05'', ''odi'', ''batting'', ''2'', ''B'', ''890''),
       (''1971/01/05'', ''odi'', ''batting'', ''3'', ''C'', ''880''),
       (''1971/01/05'', ''odi'', ''batting'', ''4'', ''D'', ''870''),
       (''1971/01/05'', ''odi'', ''batting'', ''5'', ''E'', ''860''),
       (''1971/01/05'', ''odi'', ''batting'', ''6'', ''F'', ''850''),
       (''1971/01/05'', ''odi'', ''batting'', ''7'', ''G'', ''840''),
       (''1971/01/05'', ''odi'', ''batting'', ''8'', ''H'', ''830''),
       (''1971/01/05'', ''odi'', ''batting'', ''9'', ''I'', ''820''),
       (''1971/01/05'', ''odi'', ''batting'', ''10'', ''J'', ''810'')]))
     = [Str ''1'', Str ''10'', Str ''2'', Str ''3'', Str ''4'', Str ''5'', Str ''6'', Str ''7'',
        Str ''8'', Str ''9'']
   \<and> \<not> sorted (map spec_canonical_key (merge [] (DataFrame
      [(''1971/01/05'', ''odi'', ''batting'', ''1'', ''A'', ''900''),
       (''1971/01/05'', ''odi'', ''batting'', ''2'', ''B'', ''890''),
       (''1971/01/05'', ''odi'', ''batting'', ''3'', ''C'', ''880''),
       (''1971/01/05'', ''odi'', ''batting'', ''4'', ''D'', ''870''),
       (''1971/01/05'', ''odi'', ''batting'', ''5'', ''E'', ''860''),
       (''1971/01/05'', ''odi'', ''batting'', ''6'', ''F'', ''850''),
       (''1971/01/05'', ''odi'', ''batting'', ''7'', ''G'', ''840''),
       (''1971/01/05'', ''odi'', ''batting'', ''8'', ''H'', ''830''),
       (''1971/01/05'', ''odi'', ''batting'', ''9'', ''I'', ''820''),
       (''1971/01/05'', ''odi'', ''batting'', ''10'', ''J'', ''810'')])))"
  by code_simp

text \<open>
  Claim C4 (the cutoff is strict). When the date of the given instant in Indian Standard
  Time is a Tuesday, the strict cutoff is the date seven days before it, not that date.
\<close>

theorem cutoff_strict:
  assumes "weekday (date_of_local (astimezone_kolkata
             (case today_utc of None \<Rightarrow> utcnow | Some t \<Rightarrow> t))) = 1"
  shows "last_tuesday_ist utcnow today_utc True
           = date_of_local (astimezone_kolkata
               (case today_utc of None \<Rightarrow> utcnow | Some t \<Rightarrow> t)) - 7
       \<and> last_tuesday_ist utcnow today_utc True
           \<noteq> date_of_local (astimezone_kolkata
               (case today_utc of None \<Rightarrow> utcnow | Some t \<Rightarrow> t))"
  using assms by (simp add: last_tuesday_ist_def Let_def)

theorem cutoff_strict_witness:
  "weekday (date_of_local (astimezone_kolkata 31881600)) = 1
   \<and> date_of_local (astimezone_kolkata 31881600) = ymd2ord 1971 1 5
   \<and> last_tuesday_ist 0 (Some 31881600) True = ymd2ord 1970 12 29"
  using cutoff_strict [where today_utc = "Some 31881600" and utcnow = 0]
  by (simp add: weekday_def date_of_local_def astimezone_kolkata_def ymd2ord_def
       days_before_year_def days_before_month_def DAYS_BEFORE_MONTH_def is_leap_def)

text \<open>
  Claim C5 (a failing fetch degrades to the empty list). \<^verbatim>\<open>scrape_date\<close> always returns a
  list of rows: every exception of a pass is caught at line 52. When each of the three
  passes fails (it raises, or the status is not 200), the list is empty. When a pass gets
  a page with status 200 of which no row among those looked at has three cells, after
  passes that failed, the list is empty and that pass is the last request.
\<close>

theorem fetch_degradation:
  "(\<exists>rows evs. scrape_date net d fmt category = (rows, evs))
   \<and> ((\<forall>i<MAX_RETRIES. failed (net i)) \<longrightarrow> fst (scrape_date net d fmt category) = [])
   \<and> (\<forall>k soup. k < MAX_RETRIES \<and> (\<forall>i<k. failed (net i)) \<and> net k = Response 200 soup
          \<and> filter (\<lambda>cols. length cols \<ge> 3) (take 100 (drop 1 (select_table_tr soup))) = []
        \<longrightarrow> fst (scrape_date net d fmt category) = []
            \<and> gets (snd (scrape_date net d fmt category)) = Suc k)"
proof (intro conjI allI impI)
  show "\<exists>rows evs. scrape_date net d fmt category = (rows, evs)"
    by (cases "scrape_date net d fmt category") blast
next
  assume "\<forall>i<MAX_RETRIES. failed (net i)"
  then have "\<forall>j<MAX_RETRIES. failed (net (0 + j))" by simp
  from retry_loop_all_failed [OF this]
  show "fst (scrape_date net d fmt category) = []"
    by (simp add: scrape_date_def)
next
  fix k soup
  assume a: "k < MAX_RETRIES \<and> (\<forall>i<k. failed (net i)) \<and> net k = Response 200 soup
          \<and> filter (\<lambda>cols. length cols \<ge> 3) (take 100 (drop 1 (select_table_tr soup))) = []"
  then have "k < MAX_RETRIES" "\<forall>j<k. failed (net (0 + j))" "net (0 + k) = Response 200 soup"
    by simp_all
  from retry_loop_success [OF this, of "strftime d" fmt category] a
  show "fst (scrape_date net d fmt category) = []"
    and "gets (snd (scrape_date net d fmt category)) = Suc k"
    by (simp_all add: scrape_date_def extract_rows_empty)
qed

theorem fetch_degradation_witness:
  "failed Raises \<and> failed (Response 503 []) \<and> \<not> failed (Response 200 [])
   \<and> fst (scrape_date (\<lambda>i. if i = 1 then Response 503 [] else Raises)
            (ymd2ord 1971 1 5) ''odi'' ''batting'') = []
   \<and> fst (scrape_date (\<lambda>i. if i = 0 then Raises else Response 200 [[[[''Rank'']], [[''1''], [''A'']]]])
            (ymd2ord 1971 1 5) ''odi'' ''batting'') = []
   \<and> gets (snd (scrape_date (\<lambda>i. if i = 0 then Raises else Response 200 [[[[''Rank'']], [[''1''], [''A'']]]])
            (ymd2ord 1971 1 5) ''odi'' ''batting'')) = 2"
proof -
  let ?n1 = "\<lambda>i::nat. if i = 1 then Response 503 [] else Raises"
  let ?soup = "[[[[''Rank'']], [[''1''], [''A'']]]] :: document"
  let ?n2 = "\<lambda>i::nat. if i = 0 then Raises else Response 200 ?soup"
  have f: "failed Raises" "failed (Response 503 [])" "\<not> failed (Response 200 [])"
    by (simp_all add: failed_def)
  have h1: "\<forall>i<MAX_RETRIES. failed (?n1 i)" by (simp add: failed_def)
  have h2: "1 < MAX_RETRIES \<and> (\<forall>i<1. failed (?n2 i)) \<and> ?n2 1 = Response 200 ?soup
          \<and> filter (\<lambda>cols. length cols \<ge> 3) (take 100 (drop 1 (select_table_tr ?soup))) = []"
    by (simp add: failed_def MAX_RETRIES_def select_table_tr_def)
  from fetch_degradation [of ?n1 "ymd2ord 1971 1 5" "''odi''" "''batting''"] h1
  have a: "fst (scrape_date ?n1 (ymd2ord 1971 1 5) ''odi'' ''batting'') = []" by blast
  from fetch_degradation [of ?n2 "ymd2ord 1971 1 5" "''odi''" "''batting''"] h2
  have b: "fst (scrape_date ?n2 (ymd2ord 1971 1 5) ''odi'' ''batting'') = []
           \<and> gets (snd (scrape_date ?n2 (ymd2ord 1971 1 5) ''odi'' ''batting'')) = Suc 1"
    by blast
  from f a b show ?thesis by simp
qed

text \<open>
  Claim C6 (a pause after every failed pass) does not hold of the code: a pass that fails
  by its status reaches \<^verbatim>\<open>continue\<close> at line 39 and the next request follows at once; only
  the handler of line 52 pauses. With the status 503 on every pass, the three requests
  follow each other without a pause; with an exception on every pass, each request is
  followed by a pause of 1.
\<close>

theorem backoff_only_after_exception:
  "snd (scrape_date (\<lambda>i. Response 503 []) (ymd2ord 1971 1 5) ''odi'' ''batting'')
     = [Get ''https://www.relianceiccrankings.com/datespecific/odi/batting/1971/01/05/'',
        Get ''https://www.relianceiccrankings.com/datespecific/odi/batting/1971/01/05/'',
        Get ''https://www.relianceiccrankings.com/datespecific/odi/batting/1971/01/05/'']
   \<and> snd (scrape_date (\<lambda>i. Raises) (ymd2ord 1971 1 5) ''odi'' ''batting'')
     = [Get ''https://www.relianceiccrankings.com/datespecific/odi/batting/1971/01/05/'', Sleep 1,
        Get ''https://www.relianceiccrankings.com/datespecific/odi/batting/1971/01/05/'', Sleep 1,
        Get ''https://www.relianceiccrankings.com/datespecific/odi/batting/1971/01/05/'', Sleep 1]"
  by code_simp

text \<open>
  Claim C7 (the scenario of the empty master), as amended. With an empty master, the cutoff
  1971-01-05, the formats restricted to odi and the categories to batting, the planner
  emits five jobs, one for each date from 1971-01-01 to 1971-01-05: the last date of a pair
  without rows is 1970-12-31, not the day before the cutoff.
\<close>

theorem empty_master_scenario:
  "plan_jobs [''odi''] [''batting''] [] (ymd2ord 1971 1 5)
     = Inr [(ymd2ord 1971 1 1, ''odi'', ''batting''), (ymd2ord 1971 1 2, ''odi'', ''batting''),
            (ymd2ord 1971 1 3, ''odi'', ''batting''), (ymd2ord 1971 1 4, ''odi'', ''batting''),
            (ymd2ord 1971 1 5, ''odi'', ''batting'')]"
  by (simp add: plan_jobs_def last_date_of_def new_dates_def ymd2ord_1971_1 upt_rec)

theorem empty_master_scenario_counterexample:
  "plan_jobs [''odi''] [''batting''] [] (ymd2ord 1971 1 5)
     \<noteq> Inr [(ymd2ord 1971 1 5, ''odi'', ''batting'')]"
  by (simp add: plan_jobs_def last_date_of_def new_dates_def ymd2ord_1971_1 upt_rec)

text \<open>
  Claim C8 (the extraction of the rows), as amended. When a pass gets a page with status
  200, after passes that failed, the rows returned come from the \<^verbatim>\<open>tr\<close> rows of all the
  tables of the page taken together in document order, the first of these rows skipped and
  at most 100 kept; rows with fewer than three cells are dropped; each row returned
  carries the date as \<^verbatim>\<open>YYYY/MM/DD\<close>, the format, the category, and the texts of the
  first three cells, each the stripped text fragments of the cell joined (for a cell with
  one fragment, its text trimmed at both ends); there are at most 100 rows.
\<close>

theorem row_extraction:
  assumes "k < MAX_RETRIES" and "\<forall>i<k. failed (net i)" and "net k = Response 200 soup"
  shows "fst (scrape_date net d fmt category)
           = map (\<lambda>cols. (strftime d, fmt, category,
                           get_text_strip (cols ! 0), get_text_strip (cols ! 1),
                           get_text_strip (cols ! 2)))
                 (filter (\<lambda>cols. length cols \<ge> 3) (take 100 (drop 1 (concat soup))))
         \<and> length (fst (scrape_date net d fmt category)) \<le> 100"
proof -
  from assms have "k < MAX_RETRIES" "\<forall>j<k. failed (net (0 + j))" "net (0 + k) = Response 200 soup"
    by simp_all
  from retry_loop_success [OF this, of "strftime d" fmt category]
  have eq: "fst (scrape_date net d fmt category)
          = extract_rows (strftime d) fmt category (take 100 (drop 1 (select_table_tr soup)))"
    by (simp add: scrape_date_def)
  have "length (extract_rows (strftime d) fmt category (take 100 (drop 1 (select_table_tr soup))))
          \<le> length (take 100 (drop 1 (select_table_tr soup)))"
    by (rule length_extract_rows)
  also have "\<dots> \<le> 100" by simp
  finally have "length (fst (scrape_date net d fmt category)) \<le> 100" by (simp add: eq)
  with eq show ?thesis by (simp add: extract_rows_def select_table_tr_def)
qed

theorem row_extraction_witness:
  "0 < MAX_RETRIES
   \<and> fst (scrape_date (\<lambda>i. Response 200
             [[[[''Rank''], [''Name''], [''Rating'']], [['' 1 ''], [''A. '', ''Bee''], [''900'']]],
              [[[''2''], [''C'']], [[''3''], [''D''], [''800''], [''x'']]]])
           (ymd2ord 1971 1 5) ''odi'' ''batting'')
       = [(''1971/01/05'', ''odi'', ''batting'', ''1'', ''A.Bee'', ''900''),
          (''1971/01/05'', ''odi'', ''batting'', ''3'', ''D'', ''800'')]"
proof -
  let ?soup = "[[[[''Rank''], [''Name''], [''Rating'']], [['' 1 ''], [''A. '', ''Bee''], [''900'']]],
              [[[''2''], [''C'']], [[''3''], [''D''], [''800''], [''x'']]]] :: document"
  have h1: "0 < MAX_RETRIES" by (simp add: MAX_RETRIES_def)
  have h2: "\<forall>i<0. failed ((\<lambda>i::nat. Response 200 ?soup) i)" by simp
  have s: "strftime (ymd2ord 1971 1 5) = ''1971/01/05''" by code_simp
  have t: "get_text_strip ['' 1 ''] = ''1''" "get_text_strip [''A. '', ''Bee''] = ''A.Bee''"
    "get_text_strip [''900''] = ''900''" "get_text_strip [''3''] = ''3''"
    "get_text_strip [''D''] = ''D''" "get_text_strip [''800''] = ''800''"
    by code_simp+
  from row_extraction [OF h1 h2 refl, of "ymd2ord 1971 1 5" "''odi''" "''batting''"]
  have "fst (scrape_date (\<lambda>i. Response 200 ?soup) (ymd2ord 1971 1 5) ''odi'' ''batting'')
       = [(''1971/01/05'', ''odi'', ''batting'', ''1'', ''A.Bee'', ''900''),
          (''1971/01/05'', ''odi'', ''batting'', ''3'', ''D'', ''800'')]"
    by (simp add: s t)
  with h1 show ?thesis by simp
qed

theorem row_extraction_counterexample:
  "fst (scrape_date (\<lambda>i. Response 200
             [[[[''Rank''], [''Name''], [''Rating'']], [[''1''], [''A''], [''900'']]],
              [[[''7''], [''B''], [''100'']]]])
           (ymd2ord 1971 1 5) ''odi'' ''batting'')
     = [(''1971/01/05'', ''odi'', ''batting'', ''1'', ''A'', ''900''),
        (''1971/01/05'', ''odi'', ''batting'', ''7'', ''B'', ''100'')]
   \<and> spec_first_table_rows ''1971/01/05'' ''odi'' ''batting''
             [[[[''Rank''], [''Name''], [''Rating'']], [[''1''], [''A''], [''900'']]],
              [[[''7''], [''B''], [''100'']]]]
     = [(''1971/01/05'', ''odi'', ''batting'', ''1'', ''A'', ''900'')]
   \<and> fst (scrape_date (\<lambda>i. Response 200
             [[[[''Rank''], [''Name''], [''Rating'']], [[''1''], [''A''], [''900'']]],
              [[[''7''], [''B''], [''100'']]]])
           (ymd2ord 1971 1 5) ''odi'' ''batting'')
     \<noteq> spec_first_table_rows (strftime (ymd2ord 1971 1 5)) ''odi'' ''batting''
             [[[[''Rank''], [''Name''], [''Rating'']], [[''1''], [''A''], [''900'']]],
              [[[''7''], [''B''], [''100'']]]]"
  by code_simp

text \<open>
  Claim C9 (no write when there is nothing new). When the planner returns the empty list,
  the run ends with the persisted file as it was, without a request and without an
  exception. When the planner returns jobs and the pool returns no row for them, the run
  ends with the persisted file as it was.
\<close>

theorem no_write_short_circuit:
  "(plan_jobs FORMATS CATEGORIES (case file of Some df \<Rightarrow> df | None \<Rightarrow> [])
        (last_tuesday_ist utcnow None True) = Inr []
      \<longrightarrow> file_after (main utcnow net completion file) = file
          \<and> fetched (main utcnow net completion file) = []
          \<and> raised (main utcnow net completion file) = None)
   \<and> (\<forall>jobs. plan_jobs FORMATS CATEGORIES (case file of Some df \<Rightarrow> df | None \<Rightarrow> [])
                (last_tuesday_ist utcnow None True) = Inr jobs
              \<and> fst (pool net (completion jobs)) = []
      \<longrightarrow> file_after (main utcnow net completion file) = file
          \<and> raised (main utcnow net completion file) = None)"
  by (auto simp: main_def Let_def split: prod.splits)

theorem no_write_short_circuit_witness:
  "plan_jobs FORMATS CATEGORIES
      [\<lparr>Date = Some 719532, Format = ''odi'', Category = ''batting'', Rank = Num 1, Player = ''A'', Rating = Num 900\<rparr>,
       \<lparr>Date = Some 719532, Format = ''odi'', Category = ''bowling'', Rank = Num 1, Player = ''B'', Rating = Num 900\<rparr>,
       \<lparr>Date = Some 719532, Format = ''test'', Category = ''batting'', Rank = Num 1, Player = ''C'', Rating = Num 900\<rparr>,
       \<lparr>Date = Some 719532, Format = ''test'', Category = ''bowling'', Rank = Num 1, Player = ''D'', Rating = Num 900\<rparr>]
      (last_tuesday_ist 31968000 None True) = Inr []
   \<and> file_after (main 31968000 (\<lambda>job i. Response 200 [])  (\<lambda>jobs. jobs) (Some
      [\<lparr>Date = Some 719532, Format = ''odi'', Category = ''batting'', Rank = Num 1, Player = ''A'', Rating = Num 900\<rparr>,
       \<lparr>Date = Some 719532, Format = ''odi'', Category = ''bowling'', Rank = Num 1, Player = ''B'', Rating = Num 900\<rparr>,
       \<lparr>Date = Some 719532, Format = ''test'', Category = ''batting'', Rank = Num 1, Player = ''C'', Rating = Num 900\<rparr>,
       \<lparr>Date = Some 719532, Format = ''test'', Category = ''bowling'', Rank = Num 1, Player = ''D'', Rating = Num 900\<rparr>]))
     = Some
      [\<lparr>Date = Some 719532, Format = ''odi'', Category = ''batting'', Rank = Num 1, Player = ''A'', Rating = Num 900\<rparr>,
       \<lparr>Date = Some 719532, Format = ''odi'', Category = ''bowling'', Rank = Num 1, Player = ''B'', Rating = Num 900\<rparr>,
       \<lparr>Date = Some 719532, Format = ''test'', Category = ''batting'', Rank = Num 1, Player = ''C'', Rating = Num 900\<rparr>,
       \<lparr>Date = Some 719532, Format = ''test'', Category = ''bowling'', Rank = Num 1, Player = ''D'', Rating = Num 900\<rparr>]
   \<and> plan_jobs FORMATS CATEGORIES
      [\<lparr>Date = Some 719531, Format = ''odi'', Category = ''batting'', Rank = Num 1, Player = ''A'', Rating = Num 900\<rparr>,
       \<lparr>Date = Some 719532, Format = ''odi'', Category = ''bowling'', Rank = Num 1, Player = ''B'', Rating = Num 900\<rparr>,
       \<lparr>Date = Some 719532, Format = ''test'', Category = ''batting'', Rank = Num 1, Player = ''C'', Rating = Num 900\<rparr>,
       \<lparr>Date = Some 719532, Format = ''test'', Category = ''bowling'', Rank = Num 1, Player = ''D'', Rating = Num 900\<rparr>]
      (last_tuesday_ist 31968000 None True) = Inr [(719532, ''odi'', ''batting'')]
   \<and> fst (pool (\<lambda>job i. Raises) [(719532, ''odi'', ''batting'')]) = []
   \<and> file_after (main 31968000 (\<lambda>job i. Raises) (\<lambda>jobs. jobs) (Some
      [\<lparr>Date = Some 719531, Format = ''odi'', Category = ''batting'', Rank = Num 1, Player = ''A'', Rating = Num 900\<rparr>,
       \<lparr>Date = Some 719532, Format = ''odi'', Category = ''bowling'', Rank = Num 1, Player = ''B'', Rating = Num 900\<rparr>,
       \<lparr>Date = Some 719532, Format = ''test'', Category = ''batting'', Rank = Num 1, Player = ''C'', Rating = Num 900\<rparr>,
       \<lparr>Date = Some 719532, Format = ''test'', Category = ''bowling'', Rank = Num 1, Player = ''D'', Rating = Num 900\<rparr>]))
     = Some
      [\<lparr>Date = Some 719531, Format = ''odi'', Category = ''batting'', Rank = Num 1, Player = ''A'', Rating = Num 900\<rparr>,
       \<lparr>Date = Some 719532, Format = ''odi'', Category = ''bowling'', Rank = Num 1, Player = ''B'', Rating = Num 900\<rparr>,
       \<lparr>Date = Some 719532, Format = ''test'', Category = ''batting'', Rank = Num 1, Player = ''C'', Rating = Num 900\<rparr>,
       \<lparr>Date = Some 719532, Format = ''test'', Category = ''bowling'', Rank = Num 1, Player = ''D'', Rating = Num 900\<rparr>]"
proof -
  let ?a = "[\<lparr>Date = Some 719532, Format = ''odi'', Category = ''batting'', Rank = Num 1, Player = ''A'', Rating = Num 900\<rparr>,
       \<lparr>Date = Some 719532, Format = ''odi'', Category = ''bowling'', Rank = Num 1, Player = ''B'', Rating = Num 900\<rparr>,
       \<lparr>Date = Some 719532, Format = ''test'', Category = ''batting'', Rank = Num 1, Player = ''C'', Rating = Num 900\<rparr>,
       \<lparr>Date = Some 719532, Format = ''test'', Category = ''bowling'', Rank = Num 1, Player = ''D'', Rating = Num 900\<rparr>]"
  let ?b = "[\<lparr>Date = Some 719531, Format = ''odi'', Category = ''batting'', Rank = Num 1, Player = ''A'', Rating = Num 900\<rparr>,
       \<lparr>Date = Some 719532, Format = ''odi'', Category = ''bowling'', Rank = Num 1, Player = ''B'', Rating = Num 900\<rparr>,
       \<lparr>Date = Some 719532, Format = ''test'', Category = ''batting'', Rank = Num 1, Player = ''C'', Rating = Num 900\<rparr>,
       \<lparr>Date = Some 719532, Format = ''test'', Category = ''bowling'', Rank = Num 1, Player = ''D'', Rating = Num 900\<rparr>]"
  have e: "last_tuesday_ist 31968000 None True = 719532"
    by (simp add: last_tuesday_ist_def astimezone_kolkata_def date_of_local_def weekday_def)
  have h1: "plan_jobs FORMATS CATEGORIES ?a (last_tuesday_ist 31968000 None True) = Inr []"
    unfolding e by (simp add: plan_jobs_def FORMATS_def CATEGORIES_def last_date_of_def)
  have h2: "plan_jobs FORMATS CATEGORIES ?b (last_tuesday_ist 31968000 None True)
              = Inr [(719532, ''odi'', ''batting'')]"
    unfolding e
    by (simp add: plan_jobs_def FORMATS_def CATEGORIES_def last_date_of_def new_dates_def)
  have h3: "fst (pool (\<lambda>job i. Raises) [(719532, ''odi'', ''batting'')]) = []"
    by (simp add: pool_def scrape_date_def MAX_RETRIES_def numeral_3_eq_3 Let_def)
  from no_write_short_circuit [of "Some ?a" 31968000 "\<lambda>job i. Response 200 []" "\<lambda>jobs. jobs"] h1
  have r1: "file_after (main 31968000 (\<lambda>job i. Response 200 []) (\<lambda>jobs. jobs) (Some ?a)) = Some ?a"
    by simp
  from no_write_short_circuit [of "Some ?b" 31968000 "\<lambda>job i. Raises" "\<lambda>jobs. jobs"] h2 h3
  have r2: "file_after (main 31968000 (\<lambda>job i. Raises) (\<lambda>jobs. jobs) (Some ?b)) = Some ?b"
    by simp
  from h1 h2 h3 r1 r2 show ?thesis by blast
qed

text \<open>
  Claim C10 (the epoch of a fresh pair). For a pair of \<open>FORMATS\<close> and \<open>CATEGORIES\<close> without
  rows in the master, the last date the planner uses is 1970-12-31; whenever the planner
  returns, its list holds for that pair exactly one job for each date from 1971-01-01 to
  the cutoff and no other; and the planner returns whenever every pair has a last date.
\<close>

theorem fresh_pair_epoch:
  assumes "f \<in> set FORMATS" and "c \<in> set CATEGORIES"
    and "\<forall>r \<in> set df_master. \<not> (Format r = f \<and> Category r = c)"
  shows "last_date_of df_master f c = Some (ymd2ord 1970 12 31)
       \<and> (\<forall>jobs. plan_jobs FORMATS CATEGORIES df_master cutoff = Inr jobs \<longrightarrow>
            (\<forall>d. count_list jobs (d, f, c)
                   = (if ymd2ord 1971 1 1 \<le> d \<and> d \<le> cutoff then 1 else 0)))
       \<and> ((\<forall>f' \<in> set FORMATS. \<forall>c' \<in> set CATEGORIES. last_date_of df_master f' c' \<noteq> None) \<longrightarrow>
            (\<exists>jobs. plan_jobs FORMATS CATEGORIES df_master cutoff = Inr jobs))"
proof (intro conjI allI impI)
  show w: "last_date_of df_master f c = Some (ymd2ord 1970 12 31)"
    using assms(3) by (rule last_date_of_no_rows)
  {
    assume all: "\<forall>f' \<in> set FORMATS. \<forall>c' \<in> set CATEGORIES. last_date_of df_master f' c' \<noteq> None"
    then have "\<forall>f' \<in> set FORMATS. \<forall>c' \<in> set CATEGORIES.
                 last_date_of df_master f' c' = Some (the (last_date_of df_master f' c'))"
      by simp
    from plan_jobs_count [OF distinct_FORMATS distinct_CATEGORIES this, of cutoff]
    have "\<exists>jobs. plan_jobs FORMATS CATEGORIES df_master cutoff = Inr jobs
           \<and> (\<forall>f \<in> set FORMATS. \<forall>c \<in> set CATEGORIES. \<forall>d.
                 count_list jobs (d, f, c)
                   = (if the (last_date_of df_master f c) < d \<and> d \<le> cutoff then 1 else 0))"
      by blast
  } note returns = this
  show "\<exists>jobs. plan_jobs FORMATS CATEGORIES df_master cutoff = Inr jobs"
    if "\<forall>f' \<in> set FORMATS. \<forall>c' \<in> set CATEGORIES. last_date_of df_master f' c' \<noteq> None"
    using returns [OF that] by blast
  show "count_list jobs (d, f, c) = (if ymd2ord 1971 1 1 \<le> d \<and> d \<le> cutoff then 1 else 0)"
    if run: "plan_jobs FORMATS CATEGORIES df_master cutoff = Inr jobs" for jobs d
  proof -
    have all: "\<forall>f' \<in> set FORMATS. \<forall>c' \<in> set CATEGORIES. last_date_of df_master f' c' \<noteq> None"
    proof (intro ballI notI)
      fix f' c'
      assume "f' \<in> set FORMATS" "c' \<in> set CATEGORIES" "last_date_of df_master f' c' = None"
      then have "plan_jobs FORMATS CATEGORIES df_master cutoff = Inl TypeError"
        by (rule plan_jobs_raises)
      with run show False by simp
    qed
    from returns [OF all] run assms(1,2)
    have "count_list jobs (d, f, c)
            = (if the (last_date_of df_master f c) < d \<and> d \<le> cutoff then 1 else 0)"
      by auto
    then show ?thesis by (simp add: w ymd2ord_1970_12_31 ymd2ord_1971_1)
  qed
qed

theorem fresh_pair_epoch_witness:
  "''test'' \<in> set FORMATS \<and> ''bowling'' \<in> set CATEGORIES
   \<and> last_date_of [] ''test'' ''bowling'' = Some (ymd2ord 1970 12 31)
   \<and> (\<exists>jobs. plan_jobs FORMATS CATEGORIES [] (ymd2ord 1971 1 2) = Inr jobs
         \<and> count_list jobs (ymd2ord 1970 12 31, ''test'', ''bowling'') = 0
         \<and> count_list jobs (ymd2ord 1971 1 1, ''test'', ''bowling'') = 1
         \<and> count_list jobs (ymd2ord 1971 1 2, ''test'', ''bowling'') = 1
         \<and> count_list jobs (ymd2ord 1971 1 3, ''test'', ''bowling'') = 0)"
proof -
  have f: "''test'' \<in> set FORMATS" by (simp add: FORMATS_def)
  have c: "''bowling'' \<in> set CATEGORIES" by (simp add: CATEGORIES_def)
  have e: "\<forall>r \<in> set ([] :: dataframe). \<not> (Format r = ''test'' \<and> Category r = ''bowling'')"
    by simp
  have a: "\<forall>f' \<in> set FORMATS. \<forall>c' \<in> set CATEGORIES. last_date_of [] f' c' \<noteq> None"
    by (simp add: last_date_of_def)
  note t = fresh_pair_epoch [OF f c e, of "ymd2ord 1971 1 2"]
  from t a obtain jobs where j: "plan_jobs FORMATS CATEGORIES [] (ymd2ord 1971 1 2) = Inr jobs"
    by blast
  with t have "\<forall>d. count_list jobs (d, ''test'', ''bowling'')
                 = (if ymd2ord 1971 1 1 \<le> d \<and> d \<le> ymd2ord 1971 1 2 then 1 else 0)"
    by blast
  then have "count_list jobs (ymd2ord 1970 12 31, ''test'', ''bowling'') = 0"
    "count_list jobs (ymd2ord 1971 1 1, ''test'', ''bowling'') = 1"
    "count_list jobs (ymd2ord 1971 1 2, ''test'', ''bowling'') = 1"
    "count_list jobs (ymd2ord 1971 1 3, ''test'', ''bowling'') = 0"
    by (simp_all add: ymd2ord_1970_12_31 ymd2ord_1971_1)
  with f c t j show ?thesis by blast
qed

end
